theory Spec2Isabelle
  imports Main "HOL-Library.AList"
begin

section \<open>JavaScript values used by the server\<close>

text \<open>
  Array indices and \<open>currentIndex\<close> are JavaScript numbers that only ever hold small
  integers; they are modelled as \<open>int\<close>. Reading \<open>xs[i]\<close> outside the array gives
  \<open>undefined\<close>, and \<open>undo\<close>/\<open>redo\<close> return \<open>null\<close> when there is nothing to do: both
  are the absent value \<open>None\<close> here, a present object is \<open>Some\<close>.
\<close>

definition at :: "'a list \<Rightarrow> int \<Rightarrow> 'a option" where
  \<comment> \<open>\<open>xs[i]\<close>\<close>
  "at xs i = (if 0 \<le> i \<and> i < int (length xs) then Some (xs ! nat i) else None)"

definition slice0 :: "'a list \<Rightarrow> int \<Rightarrow> 'a list" where
  \<comment> \<open>\<open>xs.slice(0, e)\<close>: a negative end counts from the end of the array, and the
      result is clamped to the array.\<close>
  "slice0 xs e = take (nat (if e < 0 then max (int (length xs) + e) 0 else e)) xs"

definition digit :: "nat \<Rightarrow> char" where
  "digit n = char_of (48 + n mod 10)"

function dec :: "nat \<Rightarrow> string" where
  \<comment> \<open>the decimal text of a non-negative integer inside a template literal\<close>
  "dec n = (if n < 10 then [digit n] else dec (n div 10) @ [digit n])"
  by pat_completeness auto
termination
  by (relation "measure (\<lambda>n. n)") auto

declare dec.simps [simp del]

text \<open>
  The values the handlers read from \<open>Date.now()\<close> and \<open>Math.random()\<close>, one field for
  each place that reads them. \<open>rnd_op\<close> and \<open>rnd_user\<close> stand for
  \<open>Math.random().toString(36).substr(2, 9)\<close>.
\<close>

record env =
  t_op :: nat       \<comment> \<open>\<open>timestamp: Date.now()\<close> in \<open>addOperation\<close>\<close>
  t_opid :: nat     \<comment> \<open>\<open>Date.now()\<close> in \<open>generateOperationId\<close>\<close>
  rnd_op :: string
  t_user :: nat     \<comment> \<open>\<open>Date.now()\<close> in \<open>generateUserId\<close>\<close>
  rnd_user :: string
  t_room :: nat     \<comment> \<open>\<open>createdAt: Date.now()\<close> in \<open>getRoom\<close>\<close>
  t_joined :: nat   \<comment> \<open>\<open>joinedAt: Date.now()\<close> in \<open>addUser\<close>\<close>
  t_timer :: nat    \<comment> \<open>the time at which \<open>setTimeout\<close> is called in \<open>removeUser\<close>\<close>

section \<open>drawing-state.js\<close>

text \<open>
  The argument of \<open>addOperation\<close> as \<open>handleDraw\<close> builds it
  (\<open>{type, userId, data}\<close>), and the stored operation
  \<open>{...operation, timestamp, id}\<close>. \<open>'d\<close> is the JSON value of \<open>data\<close>.
\<close>

record 'd draft =
  d_type :: string
  d_userId :: "string option"
  d_data :: 'd

record 'd operation =
  op_type :: string
  op_userId :: "string option"
  op_data :: 'd
  op_timestamp :: nat
  op_id :: string

record 'd DrawingState =
  operations :: "'d operation list"
  currentIndex :: int
  maxOperations :: nat

definition new_DrawingState :: "'d DrawingState" where
  \<comment> \<open>the constructor\<close>
  "new_DrawingState = \<lparr>operations = [], currentIndex = -1, maxOperations = 1000\<rparr>"

definition generateOperationId :: "env \<Rightarrow> string" where
  "generateOperationId e = ''op_'' @ dec (t_opid e) @ ''_'' @ rnd_op e"

definition stamp :: "'d draft \<Rightarrow> env \<Rightarrow> 'd operation" where
  \<comment> \<open>\<open>{...operation, timestamp: Date.now(), id: this.generateOperationId()}\<close>\<close>
  "stamp operation e =
     \<lparr>op_type = d_type operation, op_userId = d_userId operation, op_data = d_data operation,
      op_timestamp = t_op e, op_id = generateOperationId e\<rparr>"

definition addOperation ::
  "'d draft \<Rightarrow> env \<Rightarrow> 'd DrawingState \<Rightarrow> 'd operation option \<times> 'd DrawingState" where
  "addOperation operation e s =
     (let ops1 = slice0 (operations s) (currentIndex s + 1);
          ops2 = ops1 @ [stamp operation e];
          idx2 = currentIndex s + 1;
          over = (length ops2 > maxOperations s);
          ops3 = (if over then tl ops2 else ops2);
          idx3 = (if over then idx2 - 1 else idx2)
      in (at ops3 idx3, s\<lparr>operations := ops3, currentIndex := idx3\<rparr>))"

definition undo :: "'d DrawingState \<Rightarrow> 'd operation option \<times> 'd DrawingState" where
  "undo s =
     (if currentIndex s < 0 then (None, s)
      else (at (operations s) (currentIndex s), s\<lparr>currentIndex := currentIndex s - 1\<rparr>))"

definition redo :: "'d DrawingState \<Rightarrow> 'd operation option \<times> 'd DrawingState" where
  "redo s =
     (if currentIndex s \<ge> int (length (operations s)) - 1 then (None, s)
      else (at (operations s) (currentIndex s + 1), s\<lparr>currentIndex := currentIndex s + 1\<rparr>))"

definition getActiveOperations :: "'d DrawingState \<Rightarrow> 'd operation list" where
  "getActiveOperations s = slice0 (operations s) (currentIndex s + 1)"

definition getFullState :: "'d DrawingState \<Rightarrow> 'd operation list \<times> int" where
  "getFullState s = (getActiveOperations s, currentIndex s)"

definition clear :: "'d DrawingState \<Rightarrow> 'd DrawingState" where
  "clear s = s\<lparr>operations := [], currentIndex := -1\<rparr>"

definition canUndo :: "'d DrawingState \<Rightarrow> bool" where
  "canUndo s = (currentIndex s \<ge> 0)"

definition canRedo :: "'d DrawingState \<Rightarrow> bool" where
  "canRedo s = (currentIndex s < int (length (operations s)) - 1)"

text \<open>
  The calls a client of the class can make, and the log states they reach from a fresh
  log. \<open>run\<close> applies a sequence of calls in order, dropping what they return.
\<close>

datatype 'd call = Add "'d draft" env | Undo | Redo | Clear

fun exec :: "'d DrawingState \<Rightarrow> 'd call \<Rightarrow> 'd DrawingState" where
  "exec s (Add operation e) = snd (addOperation operation e s)"
| "exec s Undo = snd (undo s)"
| "exec s Redo = snd (redo s)"
| "exec s Clear = clear s"

definition run :: "'d call list \<Rightarrow> 'd DrawingState" where
  "run cs = foldl exec new_DrawingState cs"

section \<open>rooms.js\<close>

text \<open>
  A \<open>Map\<close> keeps its keys in insertion order, and \<open>set\<close> on a key that is present
  replaces the value in place: an association list with \<open>AList.update\<close> and
  \<open>AList.delete\<close>. A WebSocket is a handle (a number); what was written to it, and
  its \<open>readyState\<close>, are part of the world the server runs in.
\<close>

datatype 'd cursor = Origin | Reported 'd
  \<comment> \<open>\<open>{x: 0, y: 0}\<close>, or the value a client reported\<close>

record 'd user =
  u_id :: string
  u_ws :: nat
  u_name :: string
  u_color :: string
  u_joinedAt :: nat
  u_cursor :: "'d cursor"

record 'd user_info =
  i_id :: string
  i_name :: string
  i_color :: string
  i_cursor :: "'d cursor"

record 'd room =
  r_id :: string
  users :: "(string \<times> 'd user) list"
  drawingState :: "'d DrawingState"
  createdAt :: nat

text \<open>The objects the server serialises and writes to a socket.\<close>

datatype 'd event =
    Init string "string \<times> string \<times> string" "'d user_info list" "'d operation list \<times> int"
  | UserJoined "string \<times> string \<times> string" "'d user_info list"
  | UserLeft string "'d user_info list"
  | DrawEv "'d operation option"
  | CursorEv "string option" 'd
  | UndoEv "'d operation" "'d operation list" bool bool
  | RedoEv "'d operation" "'d operation list" bool bool
  | ClearEv
  | ErrorEv string

record 'd world =
  rooms :: "(string \<times> 'd room) list"   \<comment> \<open>\<open>roomManager.rooms\<close>\<close>
  timers :: "(nat \<times> string) list"
    \<comment> \<open>the pending \<open>setTimeout\<close> callbacks of \<open>removeUser\<close>, oldest first: the time
        each is due and the \<open>roomId\<close> it closed over\<close>
  sent :: "(nat \<times> 'd event) list"       \<comment> \<open>every \<open>ws.send\<close>, in order: socket and payload\<close>
  readyState :: "nat \<Rightarrow> nat"            \<comment> \<open>\<open>ws.readyState\<close> of each socket\<close>

definition initial_world :: "(nat \<Rightarrow> nat) \<Rightarrow> 'd world" where
  \<comment> \<open>\<open>new RoomManager()\<close>, no timer armed, nothing sent\<close>
  "initial_world rs = \<lparr>rooms = [], timers = [], sent = [], readyState = rs\<rparr>"

definition truthy :: "string option \<Rightarrow> bool" where
  \<comment> \<open>a string or \<open>undefined\<close>/\<open>null\<close> in a condition: the empty string is falsy\<close>
  "truthy v = (case v of None \<Rightarrow> False | Some s \<Rightarrow> s \<noteq> [])"

definition or_else :: "string option \<Rightarrow> string \<Rightarrow> string" where
  \<comment> \<open>\<open>v || d\<close>\<close>
  "or_else v d = (if truthy v then the v else d)"

definition set_room :: "string \<Rightarrow> 'd room \<Rightarrow> 'd world \<Rightarrow> 'd world" where
  \<comment> \<open>a room object is shared by reference: writing to it is writing to the entry of
      the map\<close>
  "set_room roomId room w = w\<lparr>rooms := AList.update roomId room (rooms w)\<rparr>"

definition ws_send :: "nat \<Rightarrow> 'd event \<Rightarrow> 'd world \<Rightarrow> 'd world" where
  "ws_send ws message w = w\<lparr>sent := sent w @ [(ws, message)]\<rparr>"

definition getRoom :: "string \<Rightarrow> env \<Rightarrow> 'd world \<Rightarrow> 'd room \<times> 'd world" where
  "getRoom roomId e w =
     (case map_of (rooms w) roomId of
        Some room \<Rightarrow> (room, w)
      | None \<Rightarrow>
          (let room = \<lparr>r_id = roomId, users = [], drawingState = new_DrawingState,
                       createdAt = t_room e\<rparr>
           in (room, w\<lparr>rooms := rooms w @ [(roomId, room)]\<rparr>)))"

definition colors :: "string list" where
  "colors = [''#FF6B6B'', ''#4ECDC4'', ''#45B7D1'', ''#FFA07A'',
             ''#98D8C8'', ''#F7DC6F'', ''#BB8FCE'', ''#85C1E2'',
             ''#F8B739'', ''#52B788'', ''#E63946'', ''#457B9D'']"

definition generateUserColor :: "nat \<Rightarrow> string" where
  "generateUserColor index = colors ! (index mod length colors)"

definition addUser ::
  "string \<Rightarrow> string \<Rightarrow> nat \<Rightarrow> string option \<times> string option \<Rightarrow> env \<Rightarrow> 'd world
     \<Rightarrow> 'd user \<times> 'd world" where
  "addUser roomId userId ws userData e w =
     (let (room, w1) = getRoom roomId e w;
          user = \<lparr>u_id = userId, u_ws = ws,
                  u_name = or_else (fst userData) (''User '' @ dec (length (users room) + 1)),
                  u_color = or_else (snd userData) (generateUserColor (length (users room))),
                  u_joinedAt = t_joined e, u_cursor = Origin\<rparr>
      in (user, set_room roomId (room\<lparr>users := AList.update userId user (users room)\<rparr>) w1))"

definition removeUser :: "string \<Rightarrow> string \<Rightarrow> env \<Rightarrow> 'd world \<Rightarrow> 'd world" where
  "removeUser roomId userId e w =
     (case map_of (rooms w) roomId of
        None \<Rightarrow> w
      | Some room \<Rightarrow>
          (let room1 = room\<lparr>users := AList.delete userId (users room)\<rparr>;
               w1 = set_room roomId room1 w
           in if length (users room1) = 0
              then w1\<lparr>timers := timers w1 @ [(t_timer e + 5 * 60 * 1000, roomId)]\<rparr>
              else w1))"

definition timer_callback :: "string \<Rightarrow> 'd world \<Rightarrow> 'd world" where
  \<comment> \<open>the function given to \<open>setTimeout\<close>\<close>
  "timer_callback roomId w =
     (case map_of (rooms w) roomId of
        None \<Rightarrow> w
      | Some currentRoom \<Rightarrow>
          if length (users currentRoom) = 0
          then w\<lparr>rooms := AList.delete roomId (rooms w)\<rparr> else w)"

definition timer_fires :: "nat \<Rightarrow> 'd world \<Rightarrow> 'd world" where
  \<comment> \<open>the event loop at time \<open>now\<close>: the oldest pending timer runs once it is due\<close>
  "timer_fires now w =
     (case timers w of
        [] \<Rightarrow> w
      | (due, roomId) # rest \<Rightarrow>
          if due \<le> now then timer_callback roomId (w\<lparr>timers := rest\<rparr>) else w)"

definition info :: "'d user \<Rightarrow> 'd user_info" where
  "info u = \<lparr>i_id = u_id u, i_name = u_name u, i_color = u_color u, i_cursor = u_cursor u\<rparr>"

definition getRoomUsers :: "string \<Rightarrow> 'd world \<Rightarrow> 'd user_info list" where
  "getRoomUsers roomId w =
     (case map_of (rooms w) roomId of
        None \<Rightarrow> []
      | Some room \<Rightarrow> map (\<lambda>(k, u). info u) (users room))"

definition updateUserCursor :: "string \<Rightarrow> string option \<Rightarrow> 'd \<Rightarrow> 'd world \<Rightarrow> 'd world" where
  "updateUserCursor roomId userId cursor w =
     (case map_of (rooms w) roomId of
        None \<Rightarrow> w
      | Some room \<Rightarrow>
          (case userId of
             None \<Rightarrow> w
           | Some uid \<Rightarrow>
               (case map_of (users room) uid of
                  None \<Rightarrow> w
                | Some u \<Rightarrow>
                    set_room roomId
                      (room\<lparr>users := AList.update uid (u\<lparr>u_cursor := Reported cursor\<rparr>) (users room)\<rparr>)
                      w)))"

definition recipients :: "string option \<Rightarrow> 'd world \<Rightarrow> (string \<times> 'd user) list \<Rightarrow> nat list" where
  \<comment> \<open>the sockets \<open>broadcast\<close> writes to, in the order of \<open>forEach\<close>: every user but the
      sender whose socket is OPEN (1)\<close>
  "recipients senderId w us =
     map (\<lambda>(k, u). u_ws u)
       (filter (\<lambda>(k, u). Some k \<noteq> senderId \<and> readyState w (u_ws u) = 1) us)"

definition broadcast :: "string \<Rightarrow> string option \<Rightarrow> 'd event \<Rightarrow> 'd world \<Rightarrow> 'd world" where
  "broadcast roomId senderId message w =
     (case map_of (rooms w) roomId of
        None \<Rightarrow> w
      | Some room \<Rightarrow>
          w\<lparr>sent := sent w @ map (\<lambda>ws. (ws, message)) (recipients senderId w (users room))\<rparr>)"

definition broadcastAll :: "string \<Rightarrow> 'd event \<Rightarrow> 'd world \<Rightarrow> 'd world" where
  "broadcastAll roomId message w =
     (case map_of (rooms w) roomId of
        None \<Rightarrow> w
      | Some room \<Rightarrow>
          w\<lparr>sent := sent w @ map (\<lambda>ws. (ws, message))
              (map (\<lambda>(k, u). u_ws u) (filter (\<lambda>(k, u). readyState w (u_ws u) = 1) (users room)))\<rparr>)"

definition getStats :: "'d world \<Rightarrow> nat \<times> nat" where
  "getStats w = (length (rooms w), foldl (\<lambda>sum (k, room). sum + length (users room)) 0 (rooms w))"

section \<open>server.js\<close>

text \<open>
  What \<open>JSON.parse(message)\<close> gives: it throws a \<open>SyntaxError\<close> when the text is not
  JSON; otherwise the value is \<open>null\<close> (reading \<open>data.type\<close> then throws a
  \<open>TypeError\<close>), a value that is not an object with fields (its \<open>type\<close> is
  \<open>undefined\<close>), or an object. Of an object only the fields the handlers read are kept;
  \<open>userId\<close>, \<open>roomId\<close>, \<open>name\<close>, \<open>color\<close> and \<open>type\<close> are strings when
  present, and \<open>'d\<close> is the type of the JSON values of \<open>data\<close> and \<open>cursor\<close>.
\<close>

record 'd message =
  m_type :: "string option"
  m_userId :: "string option"
  m_roomId :: "string option"
  m_name :: "string option"
  m_color :: "string option"
  m_data :: 'd
  m_cursor :: 'd

datatype 'd parsed = Throws | Null | NonObject | Object "'d message"

datatype js_error = SyntaxError | TypeError

text \<open>The variables of one connection's closure: \<open>ws\<close>, \<open>userId\<close> and \<open>roomId\<close>.\<close>

record conn =
  ws :: nat
  userId :: "string option"
  roomId :: string


definition generateUserId :: "env \<Rightarrow> string" where
  "generateUserId e = ''user_'' @ dec (t_user e) @ ''_'' @ rnd_user e"

definition handleJoin :: "'d message \<Rightarrow> conn \<Rightarrow> env \<Rightarrow> 'd world \<Rightarrow> conn \<times> 'd world" where
  "handleJoin data c e w =
     (let uid = or_else (m_userId data) (generateUserId e);
          rid = or_else (m_roomId data) ''default'';
          c1 = c\<lparr>userId := Some uid, roomId := rid\<rparr>;
          (user, w1) = addUser rid uid (ws c) (m_name data, m_color data) e w;
          (room, w2) = getRoom rid e w1;
          w3 = ws_send (ws c)
                 (Init uid (u_id user, u_name user, u_color user) (getRoomUsers rid w2)
                    (getFullState (drawingState room))) w2
      in (c1, broadcast rid (Some uid)
                (UserJoined (u_id user, u_name user, u_color user) (getRoomUsers rid w3)) w3))"

definition handleDraw :: "'d message \<Rightarrow> conn \<Rightarrow> env \<Rightarrow> 'd world \<Rightarrow> 'd world" where
  "handleDraw data c e w =
     (let (room, w1) = getRoom (roomId c) e w;
          (operation, ds) =
             addOperation \<lparr>d_type = ''draw'', d_userId = userId c, d_data = m_data data\<rparr> e
               (drawingState room);
          w2 = set_room (roomId c) (room\<lparr>drawingState := ds\<rparr>) w1
      in broadcast (roomId c) (userId c) (DrawEv operation) w2)"

definition handleCursor :: "'d message \<Rightarrow> conn \<Rightarrow> 'd world \<Rightarrow> 'd world" where
  "handleCursor data c w =
     broadcast (roomId c) (userId c) (CursorEv (userId c) (m_cursor data))
       (updateUserCursor (roomId c) (userId c) (m_cursor data) w)"

definition handleUndo :: "conn \<Rightarrow> env \<Rightarrow> 'd world \<Rightarrow> 'd world" where
  "handleUndo c e w =
     (let (room, w1) = getRoom (roomId c) e w;
          (operation, ds) = undo (drawingState room);
          w2 = set_room (roomId c) (room\<lparr>drawingState := ds\<rparr>) w1
      in case operation of
           None \<Rightarrow> w2
         | Some op \<Rightarrow>
             broadcastAll (roomId c)
               (UndoEv op (getActiveOperations ds) (canUndo ds) (canRedo ds)) w2)"

definition handleRedo :: "conn \<Rightarrow> env \<Rightarrow> 'd world \<Rightarrow> 'd world" where
  "handleRedo c e w =
     (let (room, w1) = getRoom (roomId c) e w;
          (operation, ds) = redo (drawingState room);
          w2 = set_room (roomId c) (room\<lparr>drawingState := ds\<rparr>) w1
      in case operation of
           None \<Rightarrow> w2
         | Some op \<Rightarrow>
             broadcastAll (roomId c)
               (RedoEv op (getActiveOperations ds) (canUndo ds) (canRedo ds)) w2)"

definition handleClear :: "conn \<Rightarrow> env \<Rightarrow> 'd world \<Rightarrow> 'd world" where
  "handleClear c e w =
     (let (room, w1) = getRoom (roomId c) e w;
          w2 = set_room (roomId c) (room\<lparr>drawingState := clear (drawingState room)\<rparr>) w1
      in broadcastAll (roomId c) ClearEv w2)"

definition dispatch :: "'d message \<Rightarrow> conn \<Rightarrow> env \<Rightarrow> 'd world \<Rightarrow> conn \<times> 'd world" where
  \<comment> \<open>the \<open>switch (data.type)\<close>; the default case only logs\<close>
  "dispatch data c e w =
     (if m_type data = Some ''join'' then handleJoin data c e w
      else if m_type data = Some ''draw'' then (c, handleDraw data c e w)
      else if m_type data = Some ''cursor'' then (c, handleCursor data c w)
      else if m_type data = Some ''undo'' then (c, handleUndo c e w)
      else if m_type data = Some ''redo'' then (c, handleRedo c e w)
      else if m_type data = Some ''clear'' then (c, handleClear c e w)
      else (c, w))"

definition try_body :: "'d parsed \<Rightarrow> conn \<Rightarrow> env \<Rightarrow> 'd world \<Rightarrow> js_error + conn \<times> 'd world" where
  \<comment> \<open>the \<open>try\<close> block: \<open>Inl\<close> is a thrown exception\<close>
  "try_body p c e w =
     (case p of
        Throws \<Rightarrow> Inl SyntaxError
      | Null \<Rightarrow> Inl TypeError
      | NonObject \<Rightarrow> Inr (c, w)
      | Object data \<Rightarrow> Inr (dispatch data c e w))"

definition on_message :: "'d parsed \<Rightarrow> conn \<Rightarrow> env \<Rightarrow> 'd world \<Rightarrow> conn \<times> 'd world" where
  \<comment> \<open>\<open>ws.on('message', ...)\<close>: the \<open>catch\<close> block writes the error event to the
      connection's own socket\<close>
  "on_message p c e w =
     (case try_body p c e w of
        Inr r \<Rightarrow> r
      | Inl err \<Rightarrow> (c, ws_send (ws c) (ErrorEv ''Failed to process message'') w))"

definition on_close :: "conn \<Rightarrow> env \<Rightarrow> 'd world \<Rightarrow> 'd world" where
  \<comment> \<open>\<open>ws.on('close', ...)\<close>\<close>
  "on_close c e w =
     (case userId c of
        None \<Rightarrow> w
      | Some uid \<Rightarrow>
          if uid \<noteq> [] \<and> roomId c \<noteq> [] then
            (let w1 = removeUser (roomId c) uid e w
             in broadcast (roomId c) (Some uid) (UserLeft uid (getRoomUsers (roomId c) w1)) w1)
          else w)"

section \<open>Auxiliary notions for the statements\<close>

text \<open>
  A sequence of \<open>addOperation\<close> calls, given by the argument and the clock readings of
  each call, and the operations these calls store.
\<close>

definition appends :: "('d draft \<times> env) list \<Rightarrow> 'd call list" where
  "appends xs = map (\<lambda>(d, e). Add d e) xs"

definition stamps :: "('d draft \<times> env) list \<Rightarrow> 'd operation list" where
  "stamps xs = map (\<lambda>(d, e). stamp d e) xs"

text \<open>The invariant of the log, and the states with nothing to redo.\<close>

definition log_inv :: "'d DrawingState \<Rightarrow> bool" where
  "log_inv s =
     (- 1 \<le> currentIndex s \<and> currentIndex s \<le> int (length (operations s)) - 1
      \<and> length (operations s) \<le> maxOperations s \<and> maxOperations s = 1000)"

definition at_tip :: "'d DrawingState \<Rightarrow> bool" where
  "at_tip s = (currentIndex s = int (length (operations s)) - 1)"


definition log_of :: "string \<Rightarrow> 'd world \<Rightarrow> 'd DrawingState" where
  "log_of rid w =
     (case map_of (rooms w) rid of None \<Rightarrow> new_DrawingState | Some room \<Rightarrow> drawingState room)"


text \<open>Concrete inputs for the examples: clock readings, a stroke, client messages.\<close>

definition env_at :: "nat \<Rightarrow> env" where
  "env_at t = \<lparr>t_op = t, t_opid = t, rnd_op = ''k3j9x0q1z'', t_user = t, rnd_user = ''a1b2c3d4e'',
               t_room = t, t_joined = t, t_timer = t\<rparr>"

definition all_open :: "nat \<Rightarrow> nat" where
  \<comment> \<open>every socket is OPEN (\<open>readyState\<close> 1)\<close>
  "all_open s = 1"

definition stroke :: "string \<Rightarrow> string draft" where
  "stroke n = \<lparr>d_type = ''draw'', d_userId = Some ''u1'', d_data = n\<rparr>"

definition intent :: "string \<Rightarrow> string message" where
  \<comment> \<open>\<open>{type: t, data: 'line', cursor: 'here'}\<close>\<close>
  "intent t = \<lparr>m_type = Some t, m_userId = None, m_roomId = None, m_name = None,
               m_color = None, m_data = ''line'', m_cursor = ''here''\<rparr>"


definition before_rejoin :: "string world" where
  \<comment> \<open>\<open>u1\<close> joins room \<open>a\<close> at 0.5 s on socket 1, draws a stroke at 0.8 s and leaves at 1 s\<close>
  "before_rejoin =
     removeUser ''a'' ''u1'' (env_at 1000)
       (handleDraw (intent ''draw'') \<lparr>ws = 1, userId = Some ''u1'', roomId = ''a''\<rparr> (env_at 800)
          (snd (addUser ''a'' ''u1'' 1 (None, None) (env_at 500) (initial_world all_open))))"

definition after_rejoin :: "string world" where
  \<comment> \<open>then \<open>u2\<close> joins room \<open>a\<close> at 300 s on socket 2 and leaves at 300.5 s\<close>
  "after_rejoin =
     removeUser ''a'' ''u2'' (env_at 300500)
       (snd (addUser ''a'' ''u2'' 2 (None, None) (env_at 300000) before_rejoin))"

section \<open>The operation log\<close>

subsection \<open>The invariant of reachable log states\<close>

lemma run_snoc: "run (cs @ [c]) = exec (run cs) c"
  by (simp add: run_def)

lemma log_inv_new: "log_inv new_DrawingState"
  by (simp add: log_inv_def new_DrawingState_def)

lemma log_inv_add: "log_inv s \<Longrightarrow> log_inv (snd (addOperation d e s))"
  by (auto simp: log_inv_def addOperation_def Let_def slice0_def)

lemma log_inv_undo: "log_inv s \<Longrightarrow> log_inv (snd (undo s))"
  by (auto simp: log_inv_def undo_def)

lemma log_inv_redo: "log_inv s \<Longrightarrow> log_inv (snd (redo s))"
  by (auto simp: log_inv_def redo_def)

lemma log_inv_clear: "log_inv s \<Longrightarrow> log_inv (clear s)"
  by (auto simp: log_inv_def clear_def)

lemma log_inv_exec: "log_inv s \<Longrightarrow> log_inv (exec s c)"
  by (cases c) (simp_all add: log_inv_add log_inv_undo log_inv_redo log_inv_clear)

lemma log_inv_foldl: "log_inv s \<Longrightarrow> log_inv (foldl exec s cs)"
  by (induction cs arbitrary: s) (simp_all add: log_inv_exec)

lemma log_inv_run: "log_inv (run cs)"
  by (simp add: run_def log_inv_foldl log_inv_new)

text \<open>
  C8. In every log state reached from the fresh log by \<open>addOperation\<close>, \<open>undo\<close>,
  \<open>redo\<close> and \<open>clear\<close> calls, \<open>-1 \<le> currentIndex \<le> operations.length - 1\<close>.
\<close>

theorem cursor_within_bounds:
  "- 1 \<le> currentIndex (run cs)
   \<and> currentIndex (run cs) \<le> int (length (operations (run cs))) - 1"
  using log_inv_run [of cs] by (simp add: log_inv_def)

text \<open>
  C5. In every reachable log state \<open>canUndo()\<close> is true exactly when \<open>undo()\<close> would
  return an operation, and \<open>canRedo()\<close> is true exactly when \<open>redo()\<close> would.
\<close>

theorem canUndo_canRedo_agree_with_undo_redo:
  "canUndo (run cs) = (fst (undo (run cs)) \<noteq> None)
   \<and> canRedo (run cs) = (fst (redo (run cs)) \<noteq> None)"
  using log_inv_run [of cs]
  by (auto simp: log_inv_def canUndo_def canRedo_def undo_def redo_def at_def)

text \<open>
  C10. \<open>undo()\<close> and \<open>redo()\<close> leave the \<open>operations\<close> array as it is, in any state; the
  state after the call is the state before it with at most \<open>currentIndex\<close> changed.
\<close>

theorem undo_redo_only_move_cursor:
  "operations (snd (undo s)) = operations s
   \<and> operations (snd (redo s)) = operations s
   \<and> snd (undo s) = s\<lparr>currentIndex := currentIndex (snd (undo s))\<rparr>
   \<and> snd (redo s) = s\<lparr>currentIndex := currentIndex (snd (redo s))\<rparr>"
  by (simp add: undo_def redo_def)

subsection \<open>Undo followed by redo\<close>

lemma undo_redo_gen:
  assumes "log_inv s" "0 \<le> currentIndex s"
  shows "fst (undo s) = Some (operations s ! nat (currentIndex s))"
    and "fst (redo (snd (undo s))) = fst (undo s)"
    and "snd (redo (snd (undo s))) = s"
  using assms by (auto simp: log_inv_def undo_def redo_def at_def)

text \<open>
  C6. In a log state with \<open>currentIndex \<ge> 0\<close>, \<open>undo()\<close> returns the entry at the
  cursor, the \<open>redo()\<close> that follows returns the same entry, and
  \<open>getActiveOperations()\<close> (indeed the whole state) is then what it was before the undo.
\<close>

theorem undo_then_redo_restores:
  assumes "0 \<le> currentIndex (run cs)"
  shows "fst (undo (run cs)) = Some (operations (run cs) ! nat (currentIndex (run cs)))
     \<and> fst (redo (snd (undo (run cs)))) = fst (undo (run cs))
     \<and> getActiveOperations (snd (redo (snd (undo (run cs))))) = getActiveOperations (run cs)
     \<and> snd (redo (snd (undo (run cs)))) = run cs"
  using undo_redo_gen [OF log_inv_run assms] by simp

theorem undo_then_redo_restores_witness:
  "0 \<le> currentIndex (run [Add (stroke ''s1'') (env_at 10), Add (stroke ''s2'') (env_at 20)])
   \<and> fst (undo (run [Add (stroke ''s1'') (env_at 10), Add (stroke ''s2'') (env_at 20)]))
       = Some (stamp (stroke ''s2'') (env_at 20))
   \<and> fst (redo (snd (undo (run [Add (stroke ''s1'') (env_at 10), Add (stroke ''s2'') (env_at 20)]))))
       = Some (stamp (stroke ''s2'') (env_at 20))
   \<and> getActiveOperations
        (snd (redo (snd (undo (run [Add (stroke ''s1'') (env_at 10), Add (stroke ''s2'') (env_at 20)])))))
       = [stamp (stroke ''s1'') (env_at 10), stamp (stroke ''s2'') (env_at 20)]"
proof -
  have r: "run [Add (stroke ''s1'') (env_at 10), Add (stroke ''s2'') (env_at 20)] =
      \<lparr>operations = [stamp (stroke ''s1'') (env_at 10), stamp (stroke ''s2'') (env_at 20)],
       currentIndex = 1, maxOperations = 1000\<rparr>"
    by (simp add: run_def new_DrawingState_def addOperation_def Let_def slice0_def)
  have h: "0 \<le> currentIndex (run [Add (stroke ''s1'') (env_at 10), Add (stroke ''s2'') (env_at 20)])"
    by (simp add: r)
  show ?thesis
    using undo_then_redo_restores [OF h] h by (simp add: r getActiveOperations_def slice0_def)
qed

subsection \<open>Appending after an undo\<close>

lemma at_tip_add: "log_inv s \<Longrightarrow> at_tip (snd (addOperation d e s))"
  by (auto simp: log_inv_def at_tip_def addOperation_def Let_def slice0_def)

lemma at_tip_exec: "log_inv s \<Longrightarrow> at_tip s \<Longrightarrow> c \<noteq> Undo \<Longrightarrow> at_tip (exec s c)"
proof (cases c)
  case (Add d e)
  assume "log_inv s"
  then show ?thesis using Add by (simp add: at_tip_add)
qed (auto simp: redo_def clear_def at_tip_def)

lemma at_tip_foldl:
  "log_inv s \<Longrightarrow> at_tip s \<Longrightarrow> Undo \<notin> set cs \<Longrightarrow> at_tip (foldl exec s cs)"
  by (induction cs arbitrary: s) (auto simp: at_tip_exec log_inv_exec)

lemma at_tip_no_redo: "at_tip s \<Longrightarrow> fst (redo s) = None \<and> \<not> canRedo s"
  by (simp add: at_tip_def redo_def canRedo_def)

lemma add_in_tail:
  assumes "log_inv s" "currentIndex s < int (length (operations s)) - 1"
  shows "operations (snd (addOperation d e s)) =
           take (nat (currentIndex s + 1)) (operations s) @ [stamp d e]"
    and "canRedo (snd (undo (snd (addOperation d e s))))"
  using assms
  by (auto simp: log_inv_def addOperation_def Let_def slice0_def undo_def canRedo_def)

text \<open>
  C7. In a log state with a redo tail (\<open>currentIndex < operations.length - 1\<close>) one
  \<open>addOperation\<close> drops the whole tail: the array becomes the active prefix followed
  by the new operation. From then on, whatever calls other than \<open>undo\<close> follow,
  \<open>redo()\<close> returns null and \<open>canRedo()\<close> is false; an \<open>undo()\<close> makes redo available
  again.
\<close>

theorem append_discards_redo_tail:
  assumes "currentIndex (run cs) < int (length (operations (run cs))) - 1"
    and "Undo \<notin> set cs'"
  shows "operations (snd (addOperation d e (run cs))) =
           take (nat (currentIndex (run cs) + 1)) (operations (run cs)) @ [stamp d e]
     \<and> fst (redo (foldl exec (snd (addOperation d e (run cs))) cs')) = None
     \<and> \<not> canRedo (foldl exec (snd (addOperation d e (run cs))) cs')
     \<and> canRedo (snd (undo (snd (addOperation d e (run cs)))))"
  using add_in_tail [OF log_inv_run assms(1)]
    at_tip_no_redo [OF at_tip_foldl [OF log_inv_add [OF log_inv_run]
      at_tip_add [OF log_inv_run] assms(2)]]
  by simp

theorem append_discards_redo_tail_witness:
  "currentIndex (run [Add (stroke ''s1'') (env_at 10), Add (stroke ''s2'') (env_at 20), Undo])
     < int (length (operations
         (run [Add (stroke ''s1'') (env_at 10), Add (stroke ''s2'') (env_at 20), Undo]))) - 1
   \<and> Undo \<notin> set [Redo, Add (stroke ''s4'') (env_at 40), Redo]
   \<and> operations (snd (addOperation (stroke ''s3'') (env_at 30)
        (run [Add (stroke ''s1'') (env_at 10), Add (stroke ''s2'') (env_at 20), Undo]))) =
       [stamp (stroke ''s1'') (env_at 10), stamp (stroke ''s3'') (env_at 30)]
   \<and> fst (redo (foldl exec (snd (addOperation (stroke ''s3'') (env_at 30)
        (run [Add (stroke ''s1'') (env_at 10), Add (stroke ''s2'') (env_at 20), Undo])))
        [Redo, Add (stroke ''s4'') (env_at 40), Redo])) = None"
proof -
  let ?cs = "[Add (stroke ''s1'') (env_at 10), Add (stroke ''s2'') (env_at 20), Undo]"
  have r: "run ?cs =
      \<lparr>operations = [stamp (stroke ''s1'') (env_at 10), stamp (stroke ''s2'') (env_at 20)],
       currentIndex = 0, maxOperations = 1000\<rparr>"
    by (simp add: run_def new_DrawingState_def addOperation_def Let_def slice0_def undo_def)
  have h1: "currentIndex (run ?cs) < int (length (operations (run ?cs))) - 1"
    by (simp add: r)
  have h2: "Undo \<notin> set [Redo, Add (stroke ''s4'') (env_at 40), Redo]"
    by simp
  show ?thesis
    using append_discards_redo_tail [OF h1 h2, of "stroke ''s3''" "env_at 30"] h1 h2
    by (simp add: r)
qed

subsection \<open>Appending without undo, and the retention cap\<close>

lemma run_appends:
  "operations (run (appends xs)) = drop (length xs - 1000) (stamps xs)
   \<and> currentIndex (run (appends xs)) = int (min (length xs) 1000) - 1
   \<and> maxOperations (run (appends xs)) = 1000"
proof (induction xs rule: rev_induct)
  case Nil
  show ?case by (simp add: appends_def stamps_def run_def new_DrawingState_def)
next
  case (snoc x xs)
  obtain d e where x: "x = (d, e)" by (cases x)
  let ?s = "run (appends xs)"
  have r: "run (appends (xs @ [x])) = snd (addOperation d e ?s)"
    by (simp add: appends_def x run_snoc)
  have ops: "operations ?s = drop (length xs - 1000) (stamps xs)"
    and idx: "currentIndex ?s = int (min (length xs) 1000) - 1"
    and mx: "maxOperations ?s = 1000" using snoc by simp_all
  have len: "length (operations ?s) = min (length xs) 1000"
    by (simp add: ops stamps_def)
  have sl: "slice0 (operations ?s) (currentIndex ?s + 1) = operations ?s"
    by (simp add: slice0_def idx len)
  have st: "stamps (xs @ [x]) = stamps xs @ [stamp d e]"
    by (simp add: stamps_def x)
  have add: "snd (addOperation d e ?s) =
      ?s\<lparr>operations := (if length xs < 1000 then operations ?s @ [stamp d e]
                           else tl (operations ?s @ [stamp d e])),
         currentIndex := (if length xs < 1000 then currentIndex ?s + 1 else currentIndex ?s)\<rparr>"
    by (simp add: addOperation_def Let_def sl len mx)
  show ?case
  proof (cases "length xs < 1000")
    case True
    then show ?thesis
      by (simp add: r add mx idx st ops)
  next
    case False
    then obtain k where k: "length xs = 1000 + k"
      using le_Suc_ex [of 1000 "length xs"] by auto
    have ne: "operations ?s \<noteq> []" using len k by auto
    have t: "tl (operations ?s) = drop (Suc k) (stamps xs)"
      by (simp add: ops k drop_Suc tl_drop)
    have o: "operations (run (appends (xs @ [x]))) = drop (Suc k) (stamps xs) @ [stamp d e]"
      using False ne by (simp add: r add t)
    have i: "currentIndex (run (appends (xs @ [x]))) = 999"
      using False by (simp add: r add idx)
    have m: "maxOperations (run (appends (xs @ [x]))) = 1000"
      by (simp add: r add mx)
    have g: "drop (length (xs @ [x]) - 1000) (stamps (xs @ [x])) =
        drop (Suc k) (stamps xs) @ [stamp d e]"
    proof -
      have "length (stamps xs) = 1000 + k" by (simp add: stamps_def k)
      then show ?thesis by (simp add: st k)
    qed
    have "int (min (length (xs @ [x])) 1000) - 1 = 999"
      by (simp add: k)
    with o i m g show ?thesis by simp
  qed
qed

lemma active_run_appends:
  "getActiveOperations (run (appends xs)) = drop (length xs - 1000) (stamps xs)"
proof -
  have "length (drop (length xs - 1000) (stamps xs)) = min (length xs) 1000"
    by (simp add: stamps_def)
  then show ?thesis
    using run_appends [of xs] by (simp add: getActiveOperations_def slice0_def)
qed

text \<open>
  C3, as stated: after any sequence of \<open>addOperation\<close> calls on a fresh log,
  \<open>getActiveOperations()\<close> is the whole appended sequence. It fails for 1001 calls: the
  log keeps 1000 operations.
\<close>

theorem active_after_1001_appends_counterexample:
  "getActiveOperations (run (appends (replicate 1001 (stroke ''s1'', env_at 10))))
     \<noteq> stamps (replicate 1001 (stroke ''s1'', env_at 10))"
proof
  assume "getActiveOperations (run (appends (replicate 1001 (stroke ''s1'', env_at 10))))
     = stamps (replicate 1001 (stroke ''s1'', env_at 10))"
  then have "length (drop (1001 - 1000) (stamps (replicate 1001 (stroke ''s1'', env_at 10))))
     = length (stamps (replicate 1001 (stroke ''s1'', env_at 10)))"
    using active_run_appends [of "replicate 1001 (stroke ''s1'', env_at 10)"] by simp
  then show False by (simp add: stamps_def)
qed

text \<open>
  C3, amended: after any sequence of \<open>addOperation\<close> calls on a fresh log,
  \<open>getActiveOperations()\<close> is the last 1000 (\<open>maxOperations\<close>) operations of the
  appended sequence, in call order; it is the whole sequence when at most 1000 were
  appended.
\<close>

theorem active_after_appends_keeps_newest:
  "getActiveOperations (run (appends xs)) = drop (length xs - 1000) (stamps xs)
   \<and> (length xs \<le> 1000 \<longrightarrow> getActiveOperations (run (appends xs)) = stamps xs)"
  by (simp add: active_run_appends)

theorem active_after_appends_keeps_newest_witness:
  "length [(stroke ''s1'', env_at 10), (stroke ''s2'', env_at 20)] \<le> 1000
   \<and> getActiveOperations (run (appends [(stroke ''s1'', env_at 10), (stroke ''s2'', env_at 20)]))
       = [stamp (stroke ''s1'') (env_at 10), stamp (stroke ''s2'') (env_at 20)]"
  using active_after_appends_keeps_newest [of "[(stroke ''s1'', env_at 10), (stroke ''s2'', env_at 20)]"]
  by (simp add: stamps_def)

lemma add_at_cap:
  assumes "log_inv s" "length (operations s) = maxOperations s"
    "currentIndex s = int (length (operations s)) - 1"
  shows "operations (snd (addOperation d e s)) = tl (operations s) @ [stamp d e]"
    and "currentIndex (snd (addOperation d e s)) = currentIndex s"
    and "fst (addOperation d e s) = Some (stamp d e)"
    and "getActiveOperations (snd (addOperation d e s)) = tl (getActiveOperations s) @ [stamp d e]"
    and "maxOperations (snd (addOperation d e s)) = maxOperations s"
proof -
  from assms have ne: "operations s \<noteq> []" by (auto simp: log_inv_def)
  from assms have sl: "slice0 (operations s) (currentIndex s + 1) = operations s"
    by (simp add: slice0_def)
  from assms have mx: "maxOperations s = 1000" by (simp add: log_inv_def)
  have add: "snd (addOperation d e s) = s\<lparr>operations := tl (operations s) @ [stamp d e]\<rparr>"
    unfolding addOperation_def Let_def sl using assms(2,3) ne by simp
  show "operations (snd (addOperation d e s)) = tl (operations s) @ [stamp d e]"
    by (simp add: add)
  show "currentIndex (snd (addOperation d e s)) = currentIndex s"
    by (simp add: add)
  show "maxOperations (snd (addOperation d e s)) = maxOperations s"
    by (simp add: add)
  show "getActiveOperations (snd (addOperation d e s)) = tl (getActiveOperations s) @ [stamp d e]"
    using assms(2,3) mx by (simp add: add getActiveOperations_def slice0_def)
  show "fst (addOperation d e s) = Some (stamp d e)"
    unfolding addOperation_def Let_def sl using assms(2,3) ne mx by (simp add: at_def nth_append)
qed

text \<open>
  C4. In a log state whose array is full (\<open>operations.length = maxOperations\<close>) with the
  cursor on the last index, one more \<open>addOperation\<close> keeps the length at
  \<open>maxOperations\<close>, drops exactly the oldest entry, leaves the cursor on the last
  index, where the new operation now is, makes \<open>getActiveOperations()\<close> the previous
  active sequence without its first element followed by the new operation, and returns
  the new operation.
\<close>

theorem append_at_capacity_evicts_oldest:
  assumes "length (operations (run cs)) = maxOperations (run cs)"
    and "currentIndex (run cs) = int (length (operations (run cs))) - 1"
  shows "length (operations (snd (addOperation d e (run cs))))
           = maxOperations (snd (addOperation d e (run cs)))
     \<and> maxOperations (snd (addOperation d e (run cs))) = maxOperations (run cs)
     \<and> operations (snd (addOperation d e (run cs))) = tl (operations (run cs)) @ [stamp d e]
     \<and> currentIndex (snd (addOperation d e (run cs)))
           = int (length (operations (snd (addOperation d e (run cs))))) - 1
     \<and> at (operations (snd (addOperation d e (run cs))))
           (currentIndex (snd (addOperation d e (run cs)))) = Some (stamp d e)
     \<and> getActiveOperations (snd (addOperation d e (run cs)))
           = tl (getActiveOperations (run cs)) @ [stamp d e]
     \<and> fst (addOperation d e (run cs)) = Some (stamp d e)"
proof -
  note a = add_at_cap [OF log_inv_run assms]
  have ne: "operations (run cs) \<noteq> []"
    using assms(1) log_inv_run [of cs] by (auto simp: log_inv_def)
  have l: "length (operations (snd (addOperation d e (run cs)))) = length (operations (run cs))"
    using ne by (simp add: a(1))
  have "at (tl (operations (run cs)) @ [stamp d e]) (int (length (operations (run cs))) - 1)
      = Some (stamp d e)"
    using ne by (simp add: at_def nth_append)
  then show ?thesis using l assms by (simp add: a)
qed

theorem append_at_capacity_evicts_oldest_witness:
  "length (operations (run (appends (replicate 1000 (stroke ''s1'', env_at 10)))))
     = maxOperations (run (appends (replicate 1000 (stroke ''s1'', env_at 10))))
   \<and> currentIndex (run (appends (replicate 1000 (stroke ''s1'', env_at 10))))
     = int (length (operations (run (appends (replicate 1000 (stroke ''s1'', env_at 10)))))) - 1
   \<and> fst (addOperation (stroke ''s2'') (env_at 20)
        (run (appends (replicate 1000 (stroke ''s1'', env_at 10)))))
     = Some (stamp (stroke ''s2'') (env_at 20))
   \<and> length (operations (snd (addOperation (stroke ''s2'') (env_at 20)
        (run (appends (replicate 1000 (stroke ''s1'', env_at 10))))))) = 1000
   \<and> currentIndex (snd (addOperation (stroke ''s2'') (env_at 20)
        (run (appends (replicate 1000 (stroke ''s1'', env_at 10)))))) = 999"
proof -
  let ?s = "run (appends (replicate 1000 (stroke ''s1'', env_at 10)))"
  have o: "operations ?s = stamps (replicate 1000 (stroke ''s1'', env_at 10))"
    and i: "currentIndex ?s = 999" and m: "maxOperations ?s = 1000"
    using run_appends [of "replicate 1000 (stroke ''s1'', env_at 10)"] by simp_all
  have l: "length (operations ?s) = 1000" by (simp add: o stamps_def)
  have h1: "length (operations ?s) = maxOperations ?s" by (simp add: l m)
  have h2: "currentIndex ?s = int (length (operations ?s)) - 1" by (simp add: l i)
  show ?thesis
    using append_at_capacity_evicts_oldest [OF h1 h2, of "stroke ''s2''" "env_at 20"] h1 h2 l m
    by simp
qed

section \<open>Rooms and connections\<close>

subsection \<open>What \<open>getRoom\<close>, \<open>set_room\<close> and the broadcasts change\<close>

lemma getRoom_room: "map_of (rooms (snd (getRoom rid e w))) rid = Some (fst (getRoom rid e w))"
  by (auto simp: getRoom_def Let_def map_add_def split: option.splits)




lemma getRoom_present:
  "map_of (rooms w) rid = Some room \<Longrightarrow> getRoom rid e w = (room, w)"
  by (simp add: getRoom_def)







lemma fst_getRoom:
  "fst (getRoom rid e w) =
     (case map_of (rooms w) rid of
        None \<Rightarrow> \<lparr>r_id = rid, users = [], drawingState = new_DrawingState, createdAt = t_room e\<rparr>
      | Some room \<Rightarrow> room)"
  by (simp add: getRoom_def Let_def split: option.splits)





subsection \<open>The handlers in terms of the room's log\<close>







subsection \<open>Intents of a connection that has not joined\<close>





subsection \<open>A message that is not JSON\<close>

text \<open>
  C9. When \<open>JSON.parse\<close> throws on an inbound message, the handler writes one error
  event to the socket of the connection the message came from and to no other socket;
  rooms, logs and timers are unchanged, the connection's own state is unchanged, and the
  handler returns (nothing is thrown out of it and nothing closes the socket).
\<close>

theorem decode_failure_answers_sender_only:
  "on_message Throws c e w =
     (c, w\<lparr>sent := sent w @ [(ws c, ErrorEv ''Failed to process message'')]\<rparr>)
   \<and> rooms (snd (on_message Throws c e w)) = rooms w
   \<and> timers (snd (on_message Throws c e w)) = timers w
   \<and> readyState (snd (on_message Throws c e w)) = readyState w"
  by (simp add: on_message_def try_body_def ws_send_def)

subsection \<open>Reclaiming empty rooms\<close>

lemmas timer_defs = addUser_def removeUser_def getRoom_def set_room_def initial_world_def
  or_else_def truthy_def Let_def new_DrawingState_def timer_fires_def timer_callback_def
  env_at_def generateUserColor_def colors_def

text \<open>
  C2. A room id has at most one pending reclamation timer at any time (arming again
  replaces the previous timer), and a room that a participant joins within the grace
  window after its last participant left is not deleted and stays the same room with
  its drawing history. The code misses this: \<open>removeUser\<close> does not keep the handle of
  the timer it arms and nothing cancels a timer, so a timer armed at an earlier emptying
  still fires. In the run below \<open>u1\<close> draws a stroke in room \<open>a\<close> and leaves at 1 s,
  which arms a timer due at 301 s; \<open>u2\<close> joins at 300 s, inside the grace window, finds
  the stroke, and leaves at 300.5 s. Two timers for \<open>a\<close> are then pending. The first
  fires at 301 s, 0.5 s after the room became empty again, and deletes it; the next
  participant to join \<open>a\<close> gets a new room with an empty log.
\<close>

theorem stale_timer_deletes_rejoined_room:
  "timers before_rejoin = [(301000, ''a'')]
   \<and> operations (log_of ''a'' before_rejoin)
       = [stamp \<lparr>d_type = ''draw'', d_userId = Some ''u1'', d_data = ''line''\<rparr> (env_at 800)]
   \<and> operations (log_of ''a''
        (snd (addUser ''a'' ''u2'' 2 (None, None) (env_at 300000) before_rejoin)))
       = [stamp \<lparr>d_type = ''draw'', d_userId = Some ''u1'', d_data = ''line''\<rparr> (env_at 800)]
   \<and> timers after_rejoin = [(301000, ''a''), (600500, ''a'')]
   \<and> rooms (timer_fires 301000 after_rejoin) = []
   \<and> timers (timer_fires 301000 after_rejoin) = [(600500, ''a'')]
   \<and> map_of (rooms (snd (addUser ''a'' ''u3'' 3 (Some ''Cy'', Some ''#112233'') (env_at 302000)
        (timer_fires 301000 after_rejoin)))) ''a''
       = Some \<lparr>r_id = ''a'',
               users = [(''u3'', \<lparr>u_id = ''u3'', u_ws = 3, u_name = ''Cy'', u_color = ''#112233'',
                                 u_joinedAt = 302000, u_cursor = Origin\<rparr>)],
               drawingState = \<lparr>operations = [], currentIndex = - 1, maxOperations = 1000\<rparr>,
               createdAt = 302000\<rparr>"
proof -
  have b: "before_rejoin =
      \<lparr>rooms = [(''a'', \<lparr>r_id = ''a'', users = [],
                  drawingState =
                    \<lparr>operations = [stamp \<lparr>d_type = ''draw'', d_userId = Some ''u1'',
                                           d_data = ''line''\<rparr> (env_at 800)],
                       currentIndex = 0, maxOperations = 1000\<rparr>,
                  createdAt = 500\<rparr>)],
       timers = [(301000, ''a'')], sent = [], readyState = all_open\<rparr>"
    by (simp add: before_rejoin_def timer_defs handleDraw_def broadcast_def recipients_def
        addOperation_def slice0_def at_def intent_def all_open_def)
  have a: "after_rejoin =
      \<lparr>rooms = [(''a'', \<lparr>r_id = ''a'', users = [],
                  drawingState =
                    \<lparr>operations = [stamp \<lparr>d_type = ''draw'', d_userId = Some ''u1'',
                                           d_data = ''line''\<rparr> (env_at 800)],
                       currentIndex = 0, maxOperations = 1000\<rparr>,
                  createdAt = 500\<rparr>)],
       timers = [(301000, ''a''), (600500, ''a'')], sent = [], readyState = all_open\<rparr>"
    by (simp add: after_rejoin_def b timer_defs)
  have f: "timer_fires 301000 after_rejoin =
      \<lparr>rooms = [], timers = [(600500, ''a'')], sent = [], readyState = all_open\<rparr>"
    by (simp add: a timer_fires_def timer_callback_def)
  show ?thesis
    by (simp add: f) (simp add: a b timer_defs log_of_def)
qed

end
